theory Spec2Isabelle
  imports Complex_Main "HOL-Library.Sublist"
begin

text \<open>
  A shallow embedding of the capability catalog and the approval-gated action broker:
  the execute route (single calls and batches) with its approval policy, the catalog's
  name generation, the relevance scorer, and the cache of endpoint discovery. Each source
  function is a HOL function of the same name; what the sources take from their
  environment (the host behind \<open>fetch\<close>, \<open>process.env\<close>, the clock, the file system) is an
  argument, what they throw is a value of a sum type, and what they mutate is a state
  that is passed in and returned.
\<close>

section \<open>Strings\<close>

text \<open>
  JavaScript strings are modelled as \<^typ>\<open>string\<close>, a list of 8-bit characters (the UTF-8
  bytes of the text). The regular expressions of the sources only distinguish ASCII
  characters, so they act on the bytes exactly as on the UTF-16 units. The case mappings
  \<open>toUpperCase\<close> and \<open>toLowerCase\<close> are modelled on the ASCII letters; every other byte
  is left as it is.
\<close>

definition lowerLetters :: string where
  "lowerLetters = ''abcdefghijklmnopqrstuvwxyz''"

definition upperLetters :: string where
  "upperLetters = ''ABCDEFGHIJKLMNOPQRSTUVWXYZ''"

definition digitChars :: string where
  "digitChars = ''0123456789''"

definition upperChar :: "char \<Rightarrow> char" where
  "upperChar c = (case map_of (zip lowerLetters upperLetters) c of Some u \<Rightarrow> u | None \<Rightarrow> c)"


definition toUpperCase :: "string \<Rightarrow> string" where
  "toUpperCase s = map upperChar s"



text \<open>\<open>xs.join(sep)\<close>.\<close>

fun join :: "string \<Rightarrow> string list \<Rightarrow> string" where
  "join sep [] = []"
| "join sep [x] = x"
| "join sep (x # y # ys) = x @ sep @ join sep (y # ys)"

text \<open>Decimal notation of an array index (the keys of \<open>Object.entries\<close> of an array).\<close>

fun natString :: "nat \<Rightarrow> string" where
  "natString n =
     (if n < 10 then [digitChars ! n] else natString (n div 10) @ [digitChars ! (n mod 10)])"

declare natString.simps [simp del]

section \<open>JSON values and the JavaScript coercions the broker applies to them\<close>

text \<open>
  The broker's input is what \<open>request.json()\<close> returned: a JSON value. An absent property
  reads as \<open>undefined\<close>, modelled as \<^term>\<open>None\<close>.
\<close>

datatype json =
    JNull
  | JBool bool
  | JNum rat
  | JStr string
  | JArr "json list"
  | JObj "(string \<times> json) list"

type_synonym jsval = "json option"

text \<open>\<open>v.k\<close> for a value \<open>v\<close> that is not \<open>null\<close>: only objects carry the properties read here.\<close>

fun getProp :: "json \<Rightarrow> string \<Rightarrow> jsval" where
  "getProp (JObj kvs) k = map_of kvs k"
| "getProp _ k = None"

text \<open>\<open>Boolean(v)\<close>.\<close>

fun truthy :: "jsval \<Rightarrow> bool" where
  "truthy None = False"
| "truthy (Some JNull) = False"
| "truthy (Some (JBool b)) = b"
| "truthy (Some (JNum n)) = (n \<noteq> 0)"
| "truthy (Some (JStr s)) = (s \<noteq> [])"
| "truthy (Some (JArr xs)) = True"
| "truthy (Some (JObj kvs)) = True"

text \<open>\<open>v ?? d\<close>.\<close>

fun nullish :: "jsval \<Rightarrow> json \<Rightarrow> json" where
  "nullish None d = d"
| "nullish (Some JNull) d = d"
| "nullish (Some v) d = v"

text \<open>\<open>String(v)\<close>; the notation of a number is the platform's (\<open>numStr\<close>).\<close>

fun jsString :: "(rat \<Rightarrow> string) \<Rightarrow> json \<Rightarrow> string" where
  "jsString numStr JNull = ''null''"
| "jsString numStr (JBool b) = (if b then ''true'' else ''false'')"
| "jsString numStr (JNum n) = numStr n"
| "jsString numStr (JStr s) = s"
| "jsString numStr (JArr xs) =
     join '','' (map (\<lambda>x. if x = JNull then [] else jsString numStr x) xs)"
| "jsString numStr (JObj kvs) = ''[object Object]''"

text \<open>\<open>Object.entries(v)\<close> for an object or an array.\<close>

fun entries :: "json \<Rightarrow> (string \<times> json) list" where
  "entries (JObj kvs) = kvs"
| "entries (JArr xs) = zip (map natString [0..<length xs]) xs"
| "entries _ = []"

section \<open>Approval policy (ai-policy.js)\<close>

text \<open>\<open>process.env\<close> is a finite map from names to strings, read at each call.\<close>

type_synonym procenv = "string \<Rightarrow> string option"

definition autoApproveWritesEnabled :: "procenv \<Rightarrow> bool" where
  "autoApproveWritesEnabled penv =
     (penv ''NODE_ENV'' = Some ''development'' \<or> penv ''HIT_AI_AUTO_APPROVE_WRITES'' = Some ''1'')"

definition autoApproveDeleteEnabled :: "procenv \<Rightarrow> bool" where
  "autoApproveDeleteEnabled penv = (penv ''HIT_AI_AUTO_APPROVE_DELETE'' = Some ''1'')"

section \<open>The platform: fetch, URL and JSON serialisation\<close>

record fetch_call =
  call_url :: string
  call_method :: string
  call_headers :: "(string \<times> string) list"
  call_body :: "string option"

text \<open>
  \<open>await fetch(url, init)\<close> followed by \<open>await resp.text()\<close> either rejects (a network
  failure) or yields the response's status and text.
\<close>

datatype fetch_result = Rejected | Resolved nat string

datatype exn = TypeError | FetchError

text \<open>
  The host application is a state \<open>'w\<close> that every forwarded call may change. The other
  fields are library functions of the runtime, none of them defined in this repository:
  \<open>JSON.parse\<close> (\<^term>\<open>None\<close> when it throws), \<open>JSON.stringify\<close>, the notation of numbers,
  and the text of \<open>new URL(path, origin)\<close> after \<open>searchParams.set(k, v)\<close> for each pair.
\<close>

record 'w platform =
  processEnv :: procenv
  fetch :: "'w \<Rightarrow> fetch_call \<Rightarrow> fetch_result \<times> 'w"
  jsonParse :: "string \<Rightarrow> json option"
  jsonStringify :: "json \<Rightarrow> string"
  numberString :: "rat \<Rightarrow> string"
  urlString :: "string \<Rightarrow> string \<Rightarrow> (string \<times> string) list \<Rightarrow> string"

text \<open>The incoming request: the origin of its URL and the two credentials it may carry.\<close>

record request =
  origin :: string
  authorization :: "string option"
  cookie :: "string option"

text \<open>
  The state threaded through the broker: the host application's state and the log of the
  calls forwarded so far, oldest first.
\<close>

type_synonym 'w netstate = "'w \<times> fetch_call list"

definition doFetch :: "'w platform \<Rightarrow> fetch_call \<Rightarrow> 'w netstate \<Rightarrow> fetch_result \<times> 'w netstate" where
  "doFetch P c s =
     (case fetch P (fst s) c of (r, w') \<Rightarrow> (r, (w', snd s @ [c])))"

record result =
  status :: nat
  body :: json

section \<open>The action broker (execute route)\<close>

definition methods5 :: "string list" where
  "methods5 = [''GET'', ''POST'', ''PUT'', ''PATCH'', ''DELETE'']"

definition methodOf :: "json \<Rightarrow> string" where
  "methodOf input =
     (let methodRaw = (case getProp input ''method'' of
                         Some (JStr s) \<Rightarrow> toUpperCase s
                       | _ \<Rightarrow> ''GET'')
      in if methodRaw \<in> set methods5 then methodRaw else ''GET'')"

definition pathOf :: "json \<Rightarrow> string" where
  "pathOf input = (case getProp input ''path'' of Some (JStr s) \<Rightarrow> s | _ \<Rightarrow> [])"

definition errorBody :: "string \<Rightarrow> json" where
  "errorBody msg = JObj [(''error'', JStr msg)]"

definition draftBody :: "string \<Rightarrow> json \<Rightarrow> json" where
  "draftBody toolName input =
     JObj [(''requiresApproval'', JBool True),
           (''draft'', JObj [(''toolName'', JStr toolName), (''input'', input)])]"

text \<open>Lines 39 to 60 of the route: the call that is handed to \<open>fetch\<close>.\<close>

definition credential :: "string \<Rightarrow> string option \<Rightarrow> (string \<times> string) list" where
  "credential name v = (case v of Some s \<Rightarrow> (if s = [] then [] else [(name, s)]) | None \<Rightarrow> [])"

definition buildCall :: "'w platform \<Rightarrow> request \<Rightarrow> string \<Rightarrow> string \<Rightarrow> json \<Rightarrow> fetch_call" where
  "buildCall P req method pathRaw input =
     (let query = (case getProp input ''query'' of
                     Some (JObj kvs) \<Rightarrow> entries (JObj kvs)
                   | Some (JArr xs) \<Rightarrow> entries (JArr xs)
                   | _ \<Rightarrow> []);
          params = map (\<lambda>(k, v). (k, jsString (numberString P) v))
                       (filter (\<lambda>(k, v). v \<noteq> JNull) query);
          headers = credential ''authorization'' (authorization req)
                    @ credential ''cookie'' (cookie req)
                    @ [(''content-type'', ''application/json'')]
      in \<lparr> call_url = urlString P (origin req) pathRaw params,
           call_method = method,
           call_headers = headers,
           call_body = (if method \<noteq> ''GET''
                        then Some (jsonStringify P (nullish (getProp input ''body'') (JObj [])))
                        else None) \<rparr>)"

text \<open>Lines 61 to 78: the call is forwarded and its response wrapped.\<close>

definition forward :: "'w platform \<Rightarrow> request \<Rightarrow> string \<Rightarrow> string \<Rightarrow> json \<Rightarrow> 'w netstate
                        \<Rightarrow> (exn + result) \<times> 'w netstate" where
  "forward P req method pathRaw input s =
     (let c = buildCall P req method pathRaw input in
      case doFetch P c s of
        (Rejected, s') \<Rightarrow> (Inl FetchError, s')
      | (Resolved st text, s') \<Rightarrow>
          (let parsed = (case jsonParse P text of Some j \<Rightarrow> j | None \<Rightarrow> JStr text)
           in (Inr \<lparr> status = 200,
                     body = JObj [(''status'', JNum (of_nat st)),
                                  (''url'', JStr (call_url c)),
                                  (''method'', JStr method),
                                  (''response'', parsed)] \<rparr>, s')))"

definition httpRequest :: "'w platform \<Rightarrow> request \<Rightarrow> json \<Rightarrow> 'w netstate
                            \<Rightarrow> (exn + result) \<times> 'w netstate" where
  "httpRequest P req input s =
     (let method = methodOf input;
          pathRaw = pathOf input;
          approved = truthy (getProp input ''approved'')
      in if \<not> prefix ''/api/'' pathRaw
         then (Inr \<lparr> status = 400,
                     body = errorBody (''path must start with '' @ [CHR 0x27] @ ''/api/'' @ [CHR 0x27]) \<rparr>, s)
         else if prefix ''/api/ai/'' pathRaw
         then (Inr \<lparr> status = 400, body = errorBody ''Refusing to call /api/ai/* endpoints'' \<rparr>, s)
         else
           (let requiresApproval = (method \<noteq> ''GET'');
                autoApprove = autoApproveWritesEnabled (processEnv P);
                forceApprove = (method = ''DELETE'' \<and> \<not> autoApproveDeleteEnabled (processEnv P))
            in if requiresApproval \<and> \<not> approved \<and> (forceApprove \<or> \<not> autoApprove)
               then (Inr \<lparr> status = 200,
                           body = draftBody ''http.request''
                                    (JObj [(''method'', JStr method),
                                           (''path'', JStr pathRaw),
                                           (''query'', nullish (getProp input ''query'') JNull),
                                           (''body'', nullish (getProp input ''body'') JNull),
                                           (''approved'', JBool False)]) \<rparr>, s)
               else forward P req method pathRaw input s))"

text \<open>
  The batch entry point. \<open>r?.method\<close> reads \<open>undefined\<close> from a \<open>null\<close> entry, while
  \<open>r.method\<close> in the loop throws a \<open>TypeError\<close> there. An object literal's property whose
  value is \<open>undefined\<close> reads like an absent one, so it is left out of the entry's input.
\<close>

definition methodText :: "'w platform \<Rightarrow> json \<Rightarrow> string" where
  "methodText P r =
     (let m = (if r = JNull then None else getProp r ''method'')
      in toUpperCase (jsString (numberString P)
                        (case m of Some v \<Rightarrow> (if truthy m then v else JStr []) | None \<Rightarrow> JStr [])))"

definition entryInput :: "json \<Rightarrow> json" where
  "entryInput r =
     JObj ((case getProp r ''method'' of Some v \<Rightarrow> [(''method'', v)] | None \<Rightarrow> [])
           @ (case getProp r ''path'' of Some v \<Rightarrow> [(''path'', v)] | None \<Rightarrow> [])
           @ [(''query'', nullish (getProp r ''query'') JNull),
              (''body'', nullish (getProp r ''body'') JNull),
              (''approved'', JBool True)])"

text \<open>\<open>typeof st === 'number' && st >= 200 && st < 300\<close>.\<close>

fun isOkStatus :: "jsval \<Rightarrow> bool" where
  "isOkStatus (Some (JNum n)) = (200 \<le> n \<and> n < 300)"
| "isOkStatus _ = False"

text \<open>The loop of lines 111 to 125, with \<open>results\<close>, \<open>ok\<close> and \<open>failed\<close> as accumulators.\<close>

fun bulkLoop :: "'w platform \<Rightarrow> request \<Rightarrow> json list \<Rightarrow> json list \<times> nat \<times> nat \<Rightarrow> 'w netstate
                  \<Rightarrow> (exn + json list \<times> nat \<times> nat) \<times> 'w netstate" where
  "bulkLoop P req [] acc s = (Inr acc, s)"
| "bulkLoop P req (r # rs) (results, ok, failed) s =
     (if r = JNull then (Inl TypeError, s)
      else case httpRequest P req (entryInput r) s of
             (Inl e, s') \<Rightarrow> (Inl e, s')
           | (Inr res, s') \<Rightarrow>
               (if isOkStatus (getProp (body res) ''status'')
                then bulkLoop P req rs (results @ [body res], ok + 1, failed) s'
                else bulkLoop P req rs (results @ [body res], ok, failed + 1) s'))"

definition bulkBody :: "json list \<times> nat \<times> nat \<Rightarrow> json" where
  "bulkBody acc =
     (case acc of (results, ok, failed) \<Rightarrow>
        JObj [(''status'', JNum (if failed = 0 then 200 else 207)),
              (''ok'', JNum (of_nat ok)),
              (''failed'', JNum (of_nat failed)),
              (''results'', JArr results)])"

definition httpBulk :: "'w platform \<Rightarrow> request \<Rightarrow> json \<Rightarrow> 'w netstate
                         \<Rightarrow> (exn + result) \<times> 'w netstate" where
  "httpBulk P req input s =
     (let approved = truthy (getProp input ''approved'') in
      case getProp input ''requests'' of
        Some (JArr reqs) \<Rightarrow>
          (if length reqs = 0
           then (Inr \<lparr> status = 400, body = errorBody ''requests[] is required'' \<rparr>, s)
           else if length reqs > 50
           then (Inr \<lparr> status = 400, body = errorBody ''Too many requests (max 50)'' \<rparr>, s)
           else
             (let autoApprove = autoApproveWritesEnabled (processEnv P);
                  anyWrite = list_ex (\<lambda>r. methodText P r \<noteq> ''GET'') reqs;
                  anyDelete = list_ex (\<lambda>r. methodText P r = ''DELETE'') reqs;
                  forceApprove = (anyDelete \<and> \<not> autoApproveDeleteEnabled (processEnv P))
              in if anyWrite \<and> \<not> approved \<and> (forceApprove \<or> \<not> autoApprove)
                 then (Inr \<lparr> status = 200,
                             body = draftBody ''http.bulk''
                                      (JObj [(''requests'', JArr reqs),
                                             (''approved'', JBool False)]) \<rparr>, s)
                 else case bulkLoop P req reqs ([], 0, 0) s of
                        (Inl e, s') \<Rightarrow> (Inl e, s')
                      | (Inr acc, s') \<Rightarrow> (Inr \<lparr> status = 200, body = bulkBody acc \<rparr>, s')))
      | _ \<Rightarrow> (Inr \<lparr> status = 400, body = errorBody ''requests[] is required'' \<rparr>, s))"

section \<open>Regular-expression replacements used by the catalog and the scorer\<close>











section \<open>Catalog names (ai-methods.ts)\<close>



section \<open>Relevance scorer (methods-search)\<close>

record MethodSpec =
  name :: string
  "method" :: string
  pathTemplate :: string
  description :: string
  pathParams :: "string list"
  readOnly :: bool
















section \<open>Endpoint discovery and its cache (ai-endpoints.ts)\<close>

record DiscoveredEndpoint =
  ep_pathTemplate :: string
  ep_methods :: "string list"
  ep_summary :: "string option"
  ep_methodDocs :: "(string \<times> string) list option"

record cache_entry =
  at_time :: int
  endpoints :: "DiscoveredEndpoint list"

text \<open>
  The module's state: the variable \<open>cached\<close>, and a counter of the passes over the file
  system that the model adds as an instrument.
\<close>

record discovery_state =
  cached :: "cache_entry option"
  scans :: nat

text \<open>
  The file system as discovery sees it: whether \<open>app/api\<close> exists under the project root,
  and what lines 81 to 99 (the walk over the route files, the extraction of verbs and
  documentation, the sort) produce there, an exception when \<open>readdirSync\<close> throws. The
  cache is indifferent to how that list is computed, so it is a parameter.
\<close>

record filesystem =
  apiRootExists :: bool
  scanRoutes :: "exn + DiscoveredEndpoint list"

definition discoverAppApiEndpoints :: "filesystem \<Rightarrow> int \<Rightarrow> discovery_state
                                         \<Rightarrow> (exn + DiscoveredEndpoint list) \<times> discovery_state" where
  "discoverAppApiEndpoints fsys now st =
     (case (case cached st of Some c \<Rightarrow> (if now - at_time c < 30000 then Some c else None)
                            | None \<Rightarrow> None) of
        Some c \<Rightarrow> (Inr (endpoints c), st)
      | None \<Rightarrow>
          (let st1 = st \<lparr> scans := scans st + 1 \<rparr> in
           if \<not> apiRootExists fsys
           then (Inr [], st1 \<lparr> cached := Some \<lparr> at_time = now, endpoints = [] \<rparr> \<rparr>)
           else case scanRoutes fsys of
                  Inl e \<Rightarrow> (Inl e, st1)
                | Inr eps \<Rightarrow> (Inr eps, st1 \<lparr> cached := Some \<lparr> at_time = now, endpoints = eps \<rparr> \<rparr>)))"

section \<open>Observations on results, and fixtures\<close>

text \<open>A result is a draft when its body carries \<open>requiresApproval: true\<close>.\<close>

definition isDraft :: "exn + result \<Rightarrow> bool" where
  "isDraft out =
     (case out of Inr r \<Rightarrow> getProp (body r) ''requiresApproval'' = Some (JBool True)
                | Inl e \<Rightarrow> False)"

text \<open>The draft of a single call, as lines 22 to 37 build it.\<close>

definition singleDraft :: "json \<Rightarrow> result" where
  "singleDraft input =
     \<lparr> status = 200,
       body = draftBody ''http.request''
                (JObj [(''method'', JStr (methodOf input)),
                       (''path'', JStr (pathOf input)),
                       (''query'', nullish (getProp input ''query'') JNull),
                       (''body'', nullish (getProp input ''body'') JNull),
                       (''approved'', JBool False)]) \<rparr>"

text \<open>The two checks of lines 11 to 17 on a path.\<close>

definition pathAllowed :: "string \<Rightarrow> bool" where
  "pathAllowed p = (prefix ''/api/'' p \<and> \<not> prefix ''/api/ai/'' p)"

text \<open>The call that a batch entry forwards.\<close>

definition entryCall :: "'w platform \<Rightarrow> request \<Rightarrow> json \<Rightarrow> fetch_call" where
  "entryCall P req r =
     buildCall P req (methodOf (entryInput r)) (pathOf (entryInput r)) (entryInput r)"

text \<open>The loop's test on an entry's body.\<close>

definition okBody :: "json \<Rightarrow> bool" where
  "okBody b = isOkStatus (getProp b ''status'')"

text \<open>
  A host for the examples: it answers by the called URL, and its state counts the calls
  it has served. Its parser, its serialiser and its notation of numbers are stand-ins, on
  which no example depends.
\<close>

definition hostPlatform :: "procenv \<Rightarrow> (string \<Rightarrow> fetch_result) \<Rightarrow> nat platform" where
  "hostPlatform penv respond =
     \<lparr> processEnv = penv,
       fetch = (\<lambda>w c. (respond (call_url c), Suc w)),
       jsonParse = (\<lambda>t. None),
       jsonStringify = (\<lambda>j. ''{}''),
       numberString = (\<lambda>n. ''0''),
       urlString = (\<lambda>orig path params. orig @ path) \<rparr>"

definition userRequest :: request where
  "userRequest = \<lparr> origin = ''http://host'', authorization = Some ''Bearer t'', cookie = None \<rparr>"

definition devEnv :: procenv where
  "devEnv = [''NODE_ENV'' \<mapsto> ''development'']"

definition prodEnv :: procenv where
  "prodEnv = [''NODE_ENV'' \<mapsto> ''production'']"




text \<open>A project with one route file, and the module's state before the first call.\<close>

definition companiesRoutes :: "DiscoveredEndpoint list" where
  "companiesRoutes =
     [\<lparr> ep_pathTemplate = ''/api/crm/companies'', ep_methods = [''GET'', ''POST''],
        ep_summary = None, ep_methodDocs = None \<rparr>]"

definition oneRoute :: filesystem where
  "oneRoute = \<lparr> apiRootExists = True, scanRoutes = Inr companiesRoutes \<rparr>"

definition noRoutes :: filesystem where
  "noRoutes = \<lparr> apiRootExists = False, scanRoutes = Inr [] \<rparr>"

definition freshModule :: discovery_state where
  "freshModule = \<lparr> cached = None, scans = 0 \<rparr>"

text \<open>Inputs of the examples.\<close>

definition createCompany :: "json \<Rightarrow> json" where
  "createCompany approved =
     JObj [(''method'', JStr ''POST''), (''path'', JStr ''/api/crm/companies''),
           (''body'', JObj [(''name'', JStr ''Acme'')]), (''approved'', approved)]"

definition deleteCompany :: "json \<Rightarrow> json" where
  "deleteCompany approved =
     JObj [(''method'', JStr ''delete''), (''path'', JStr ''/api/crm/companies/7''),
           (''approved'', approved)]"


definition created :: "string \<Rightarrow> fetch_result" where
  "created u = Resolved 201 ''created''"



definition batchOf :: "nat \<Rightarrow> json" where
  "batchOf n =
     JObj [(''requests'', JArr (replicate n (JObj [(''method'', JStr ''GET''), (''path'', JStr ''/api/c'')])))]"

section \<open>The action broker: single calls\<close>

lemmas broker_eval =
  httpRequest_def httpBulk_def forward_def doFetch_def buildCall_def credential_def
  methodOf_def pathOf_def methods5_def methodText_def entryInput_def bulkBody_def
  toUpperCase_def upperChar_def lowerLetters_def upperLetters_def
  autoApproveWritesEnabled_def autoApproveDeleteEnabled_def
  hostPlatform_def userRequest_def devEnv_def prodEnv_def
  errorBody_def draftBody_def isDraft_def singleDraft_def pathAllowed_def okBody_def
  created_def entryCall_def

lemma methodOf_string:
  "getProp input ''method'' = Some (JStr m) \<Longrightarrow> toUpperCase m \<in> set methods5 \<Longrightarrow>
   methodOf input = toUpperCase m"
  by (simp add: methodOf_def)

lemma forward_log: "snd (snd (forward P req m p input s)) = snd s @ [buildCall P req m p input]"
  by (auto simp: forward_def doFetch_def Let_def split: prod.splits fetch_result.splits)

lemma forward_not_draft: "\<not> isDraft (fst (forward P req m p input s))"
  by (auto simp: forward_def isDraft_def Let_def split: prod.splits fetch_result.splits)

lemma singleDraft_isDraft: "isDraft (Inr (singleDraft input))"
  by (simp add: isDraft_def singleDraft_def draftBody_def)

lemma httpRequest_allowed:
  "pathAllowed (pathOf input) \<Longrightarrow>
   httpRequest P req input s =
     (if methodOf input \<noteq> ''GET'' \<and> \<not> truthy (getProp input ''approved'')
         \<and> ((methodOf input = ''DELETE'' \<and> \<not> autoApproveDeleteEnabled (processEnv P))
              \<or> \<not> autoApproveWritesEnabled (processEnv P))
      then (Inr (singleDraft input), s)
      else forward P req (methodOf input) (pathOf input) input s)"
  by (simp add: httpRequest_def pathAllowed_def singleDraft_def Let_def)

lemma httpRequest_rejected:
  "\<not> pathAllowed (pathOf input) \<Longrightarrow>
   \<exists>msg. httpRequest P req input s = (Inr \<lparr> status = 400, body = errorBody msg \<rparr>, s)"
  by (auto simp: httpRequest_def pathAllowed_def Let_def)

text \<open>
  C1, as the code has it. A single call with a mutating verb and an allowed path returns a
  draft, leaving the host and the call log untouched, exactly when \<open>approved\<close> is falsy and
  the policy does not approve in its place: auto-approve-writes is off, or the verb is
  DELETE and auto-approve-delete is off. Otherwise the call is forwarded: one call is
  appended to the log and the result is not a draft. A truthy \<open>approved\<close> alone executes.
\<close>

theorem mutating_call_draft_iff:
  assumes "getProp input ''method'' = Some (JStr m)"
    and "toUpperCase m \<in> {''POST'', ''PUT'', ''PATCH'', ''DELETE''}"
    and "pathAllowed (pathOf input)"
  shows "httpRequest P req input s =
           (if \<not> truthy (getProp input ''approved'')
               \<and> (\<not> autoApproveWritesEnabled (processEnv P)
                    \<or> (toUpperCase m = ''DELETE'' \<and> \<not> autoApproveDeleteEnabled (processEnv P)))
            then (Inr (singleDraft input), s)
            else forward P req (toUpperCase m) (pathOf input) input s)
         \<and> isDraft (Inr (singleDraft input))
         \<and> \<not> isDraft (fst (forward P req (toUpperCase m) (pathOf input) input s))
         \<and> snd (snd (forward P req (toUpperCase m) (pathOf input) input s))
             = snd s @ [buildCall P req (toUpperCase m) (pathOf input) input]"
proof -
  have m: "methodOf input = toUpperCase m"
    using assms(1,2) by (intro methodOf_string) (auto simp: methods5_def)
  have ng: "toUpperCase m \<noteq> ''GET''" using assms(2) by auto
  show ?thesis
    using httpRequest_allowed [OF assms(3), of P req s] m ng
    by (auto simp: forward_log forward_not_draft singleDraft_isDraft)
qed

theorem mutating_call_draft_iff_witness:
  "toUpperCase ''POST'' \<in> {''POST'', ''PUT'', ''PATCH'', ''DELETE''}
   \<and> pathAllowed (pathOf (createCompany (JBool False)))
   \<and> \<not> autoApproveWritesEnabled (processEnv (hostPlatform prodEnv created))
   \<and> httpRequest (hostPlatform prodEnv created) userRequest (createCompany (JBool False)) (0, [])
       = (Inr (singleDraft (createCompany (JBool False))), (0, []))"
proof -
  let ?input = "createCompany (JBool False)"
  have h1: "getProp ?input ''method'' = Some (JStr ''POST'')"
    by (simp add: createCompany_def)
  have h2: "toUpperCase ''POST'' \<in> {''POST'', ''PUT'', ''PATCH'', ''DELETE''}"
    by (simp add: toUpperCase_def upperChar_def lowerLetters_def upperLetters_def)
  have h3: "pathAllowed (pathOf ?input)"
    by (simp add: pathAllowed_def pathOf_def createCompany_def)
  have a: "\<not> truthy (getProp ?input ''approved'')"
    by (simp add: createCompany_def)
  have p: "\<not> autoApproveWritesEnabled (processEnv (hostPlatform prodEnv created))"
    by (simp add: autoApproveWritesEnabled_def hostPlatform_def prodEnv_def)
  show ?thesis
    using mutating_call_draft_iff [OF h1 h2 h3, of "hostPlatform prodEnv created" userRequest "(0, [])"]
          h2 h3 a p
    by simp
qed

text \<open>
  C1 as stated fails: with \<open>approved: true\<close> and auto-approve-writes disabled, a POST is
  forwarded to the host instead of being held as a draft.
\<close>

theorem approved_post_executes_without_policy:
  "\<not> autoApproveWritesEnabled (processEnv (hostPlatform prodEnv created))
   \<and> \<not> isDraft (fst (httpRequest (hostPlatform prodEnv created) userRequest
                        (createCompany (JBool True)) (0, [])))
   \<and> map call_method (snd (snd (httpRequest (hostPlatform prodEnv created) userRequest
                        (createCompany (JBool True)) (0, [])))) = [''POST'']"
  by (simp add: broker_eval createCompany_def Let_def)

text \<open>
  C6. A DELETE with an allowed path and a falsy \<open>approved\<close> returns a draft when
  auto-approve-delete is disabled, also with auto-approve-writes enabled; nothing is
  forwarded: the host's state and the call log are returned as they were.
\<close>

theorem delete_unapproved_returns_draft:
  assumes "getProp input ''method'' = Some (JStr m)"
    and "toUpperCase m = ''DELETE''"
    and "pathAllowed (pathOf input)"
    and "\<not> truthy (getProp input ''approved'')"
    and "autoApproveWritesEnabled (processEnv P)"
    and "\<not> autoApproveDeleteEnabled (processEnv P)"
  shows "httpRequest P req input s = (Inr (singleDraft input), s)
         \<and> getProp (body (singleDraft input)) ''requiresApproval'' = Some (JBool True)"
proof -
  have "methodOf input = ''DELETE''"
    using assms(1,2) methodOf_string [of input m] by (simp add: methods5_def)
  then show ?thesis
    using httpRequest_allowed [OF assms(3), of P req s] assms(4,6)
    by (simp add: singleDraft_def draftBody_def)
qed

theorem delete_unapproved_returns_draft_witness:
  "toUpperCase ''delete'' = ''DELETE''
   \<and> pathAllowed (pathOf (deleteCompany (JBool False)))
   \<and> autoApproveWritesEnabled (processEnv (hostPlatform devEnv created))
   \<and> \<not> autoApproveDeleteEnabled (processEnv (hostPlatform devEnv created))
   \<and> httpRequest (hostPlatform devEnv created) userRequest (deleteCompany (JBool False)) (0, [])
       = (Inr (singleDraft (deleteCompany (JBool False))), (0, []))"
proof -
  let ?input = "deleteCompany (JBool False)"
  have h1: "getProp ?input ''method'' = Some (JStr ''delete'')"
    by (simp add: deleteCompany_def)
  have h2: "toUpperCase ''delete'' = ''DELETE''"
    by (simp add: toUpperCase_def upperChar_def lowerLetters_def upperLetters_def)
  have h3: "pathAllowed (pathOf ?input)"
    by (simp add: pathAllowed_def pathOf_def deleteCompany_def)
  have h4: "\<not> truthy (getProp ?input ''approved'')"
    by (simp add: deleteCompany_def)
  have h5: "autoApproveWritesEnabled (processEnv (hostPlatform devEnv created))"
    by (simp add: autoApproveWritesEnabled_def hostPlatform_def devEnv_def)
  have h6: "\<not> autoApproveDeleteEnabled (processEnv (hostPlatform devEnv created))"
    by (simp add: autoApproveDeleteEnabled_def hostPlatform_def devEnv_def)
  show ?thesis
    using delete_unapproved_returns_draft [OF h1 h2 h3 h4 h5 h6, of userRequest "(0, [])"]
          h2 h3 h5 h6
    by simp
qed

text \<open>
  C7. When the path does not start with \<open>/api/\<close> or lies under \<open>/api/ai/\<close>, the single
  call returns status 400 with an error body, whatever the method, the approval flag and
  the policy; the state is returned unchanged, so no call was forwarded.
\<close>

theorem disallowed_path_rejected:
  assumes "\<not> prefix ''/api/'' (pathOf input) \<or> prefix ''/api/ai/'' (pathOf input)"
  shows "\<exists>msg. httpRequest P req input s = (Inr \<lparr> status = 400, body = errorBody msg \<rparr>, s)"
  using assms httpRequest_rejected [of input P req s] by (auto simp: pathAllowed_def)

theorem disallowed_path_rejected_witness:
  "prefix ''/api/ai/'' (pathOf (JObj [(''method'', JStr ''GET''), (''path'', JStr ''/api/ai/execute'')]))
   \<and> (\<exists>msg. httpRequest (hostPlatform devEnv created) userRequest
               (JObj [(''method'', JStr ''GET''), (''path'', JStr ''/api/ai/execute'')]) (0, [])
             = (Inr \<lparr> status = 400, body = errorBody msg \<rparr>, (0, [])))
   \<and> \<not> prefix ''/api/'' (pathOf (JObj [(''method'', JStr ''POST''), (''path'', JStr ''/admin/users''),
                                        (''approved'', JBool True)]))
   \<and> (\<exists>msg. httpRequest (hostPlatform devEnv created) userRequest
               (JObj [(''method'', JStr ''POST''), (''path'', JStr ''/admin/users''),
                      (''approved'', JBool True)]) (0, [])
             = (Inr \<lparr> status = 400, body = errorBody msg \<rparr>, (0, [])))"
proof -
  let ?own = "JObj [(''method'', JStr ''GET''), (''path'', JStr ''/api/ai/execute'')]"
  let ?out = "JObj [(''method'', JStr ''POST''), (''path'', JStr ''/admin/users''),
                    (''approved'', JBool True)]"
  have h1: "prefix ''/api/ai/'' (pathOf ?own)" by (simp add: pathOf_def)
  have h2: "\<not> prefix ''/api/'' (pathOf ?out)" by (simp add: pathOf_def)
  show ?thesis
    using disallowed_path_rejected [OF disjI2 [OF h1], of "hostPlatform devEnv created" userRequest "(0, [])"]
          disallowed_path_rejected [OF disjI1 [OF h2], of "hostPlatform devEnv created" userRequest "(0, [])"]
          h1 h2
    by blast
qed



section \<open>The action broker: batches\<close>

lemma httpBulk_sized:
  assumes "getProp input ''requests'' = Some (JArr reqs)"
    and "1 \<le> length reqs" and "length reqs \<le> 50"
  shows "httpBulk P req input s =
           (if list_ex (\<lambda>r. methodText P r \<noteq> ''GET'') reqs
               \<and> \<not> truthy (getProp input ''approved'')
               \<and> ((list_ex (\<lambda>r. methodText P r = ''DELETE'') reqs
                     \<and> \<not> autoApproveDeleteEnabled (processEnv P))
                    \<or> \<not> autoApproveWritesEnabled (processEnv P))
            then (Inr \<lparr> status = 200,
                        body = draftBody ''http.bulk''
                                 (JObj [(''requests'', JArr reqs), (''approved'', JBool False)]) \<rparr>, s)
            else case bulkLoop P req reqs ([], 0, 0) s of
                   (Inl e, s') \<Rightarrow> (Inl e, s')
                 | (Inr acc, s') \<Rightarrow> (Inr \<lparr> status = 200, body = bulkBody acc \<rparr>, s'))"
proof -
  have "reqs \<noteq> []" using assms(2) by auto
  then show ?thesis using assms by (simp add: httpBulk_def Let_def)
qed

text \<open>
  C8. A batch whose \<open>requests\<close> array is empty or longer than 50 is rejected with status
  400 and the state unchanged: no entry is executed. An array of 1 to 50 entries passes
  the size checks: the batch either returns the approval draft or runs the loop over its
  entries, and any result it returns has status 200.
\<close>

theorem bulk_size_limits:
  assumes "getProp input ''requests'' = Some (JArr reqs)"
  shows "(length reqs = 0 \<or> 50 < length reqs \<longrightarrow>
            (\<exists>msg. httpBulk P req input s = (Inr \<lparr> status = 400, body = errorBody msg \<rparr>, s)))
         \<and> (1 \<le> length reqs \<and> length reqs \<le> 50 \<longrightarrow>
              (httpBulk P req input s
                 = (Inr \<lparr> status = 200,
                           body = draftBody ''http.bulk''
                                    (JObj [(''requests'', JArr reqs), (''approved'', JBool False)]) \<rparr>, s)
               \<or> httpBulk P req input s
                   = (case bulkLoop P req reqs ([], 0, 0) s of
                        (Inl e, s') \<Rightarrow> (Inl e, s')
                      | (Inr acc, s') \<Rightarrow> (Inr \<lparr> status = 200, body = bulkBody acc \<rparr>, s')))
              \<and> (\<forall>r. fst (httpBulk P req input s) = Inr r \<longrightarrow> status r = 200))"
proof (intro conjI impI)
  assume "length reqs = 0 \<or> 50 < length reqs"
  then show "\<exists>msg. httpBulk P req input s = (Inr \<lparr> status = 400, body = errorBody msg \<rparr>, s)"
    using assms by (auto simp: httpBulk_def Let_def)
next
  assume b: "1 \<le> length reqs \<and> length reqs \<le> 50"
  show "httpBulk P req input s
          = (Inr \<lparr> status = 200,
                    body = draftBody ''http.bulk''
                             (JObj [(''requests'', JArr reqs), (''approved'', JBool False)]) \<rparr>, s)
        \<or> httpBulk P req input s
            = (case bulkLoop P req reqs ([], 0, 0) s of
                 (Inl e, s') \<Rightarrow> (Inl e, s')
               | (Inr acc, s') \<Rightarrow> (Inr \<lparr> status = 200, body = bulkBody acc \<rparr>, s'))"
    using httpBulk_sized [OF assms, of P req s] b by (simp split: if_splits)
next
  assume b: "1 \<le> length reqs \<and> length reqs \<le> 50"
  show "\<forall>r. fst (httpBulk P req input s) = Inr r \<longrightarrow> status r = 200"
    using httpBulk_sized [OF assms, of P req s] b
    by (auto split: if_splits prod.splits sum.splits)
qed

theorem bulk_size_limits_witness:
  "(case httpBulk (hostPlatform prodEnv created) userRequest (batchOf 50) (0, []) of
      (Inr r, s') \<Rightarrow> status r = 200 \<and> getProp (body r) ''ok'' = Some (JNum 50)
                       \<and> length (snd s') = 50
    | (Inl e, s') \<Rightarrow> False)
   \<and> (\<exists>msg. httpBulk (hostPlatform prodEnv created) userRequest (batchOf 51) (0, [])
              = (Inr \<lparr> status = 400, body = errorBody msg \<rparr>, (0, [])))
   \<and> (\<exists>msg. httpBulk (hostPlatform prodEnv created) userRequest (batchOf 0) (0, [])
              = (Inr \<lparr> status = 400, body = errorBody msg \<rparr>, (0, [])))"
proof -
  let ?e = "JObj [(''method'', JStr ''GET''), (''path'', JStr ''/api/c'')]"
  have r: "\<And>n. getProp (batchOf n) ''requests'' = Some (JArr (replicate n ?e))"
    by (simp add: batchOf_def)
  have run: "case httpBulk (hostPlatform prodEnv created) userRequest (batchOf 50) (0, []) of
               (Inr r, s') \<Rightarrow> status r = 200 \<and> getProp (body r) ''ok'' = Some (JNum 50)
                                \<and> length (snd s') = 50
             | (Inl e, s') \<Rightarrow> False"
    by code_simp
  show ?thesis
    using run
          bulk_size_limits [OF r [of 50], of "hostPlatform prodEnv created" userRequest "(0, [])"]
          bulk_size_limits [OF r [of 51], of "hostPlatform prodEnv created" userRequest "(0, [])"]
          bulk_size_limits [OF r [of 0], of "hostPlatform prodEnv created" userRequest "(0, [])"]
    by simp
qed








section \<open>The relevance scorer\<close>
















section \<open>Catalog names\<close>
















section \<open>The discovery cache\<close>

lemma discover_fresh:
  "cached st = Some c \<Longrightarrow> now - at_time c < 30000 \<Longrightarrow>
   discoverAppApiEndpoints fsys now st = (Inr (endpoints c), st)"
  by (simp add: discoverAppApiEndpoints_def)

lemma discover_stale:
  "cached st = None \<or> (\<exists>c. cached st = Some c \<and> 30000 \<le> now - at_time c) \<Longrightarrow>
   discoverAppApiEndpoints fsys now st =
     (if \<not> apiRootExists fsys
      then (Inr [], st \<lparr> scans := scans st + 1, cached := Some \<lparr> at_time = now, endpoints = [] \<rparr> \<rparr>)
      else case scanRoutes fsys of
             Inl e \<Rightarrow> (Inl e, st \<lparr> scans := scans st + 1 \<rparr>)
           | Inr eps \<Rightarrow> (Inr eps, st \<lparr> scans := scans st + 1,
                                       cached := Some \<lparr> at_time = now, endpoints = eps \<rparr> \<rparr>))"
  by (auto simp: discoverAppApiEndpoints_def Let_def split: sum.splits)

lemma discover_returns_cached:
  assumes "discoverAppApiEndpoints fsys now st = (Inr eps, st')"
  shows "\<exists>c. cached st' = Some c \<and> endpoints c = eps
             \<and> (cached st = None \<or> (\<exists>c0. cached st = Some c0 \<and> 30000 \<le> now - at_time c0)
                  \<longrightarrow> at_time c = now \<and> scans st' = scans st + 1)"
proof (cases "\<exists>c. cached st = Some c \<and> now - at_time c < 30000")
  case True
  then obtain c where c: "cached st = Some c" "now - at_time c < 30000" by blast
  with assms discover_fresh [OF c, of fsys] show ?thesis by auto
next
  case False
  then have stale: "cached st = None \<or> (\<exists>c. cached st = Some c \<and> 30000 \<le> now - at_time c)"
    by (cases "cached st") auto
  show ?thesis
    using assms unfolding discover_stale [OF stale]
    by (auto split: if_splits sum.splits)
qed

text \<open>
  C9. Let a call of discovery return the list \<open>eps\<close>. Then the cache holds \<open>eps\<close> with a
  time stamp, which is the time of that call when it had to scan. A second call less than
  30000 ms after the stamp returns \<open>eps\<close> and leaves the module's state as it was: the
  cache is kept and the scan counter does not move, whatever the file system holds by
  then. A second call at or after expiry starts one scan; when the scan returns, its list
  is the result and the cache is replaced by that list with the new stamp, and when the
  scan throws, the cache keeps the old list.
\<close>

theorem discovery_cache_window:
  assumes "discoverAppApiEndpoints fsys t1 st0 = (Inr eps, st1)"
  shows "\<exists>c. cached st1 = Some c \<and> endpoints c = eps
           \<and> (cached st0 = None \<or> (\<exists>c0. cached st0 = Some c0 \<and> 30000 \<le> t1 - at_time c0)
                \<longrightarrow> at_time c = t1 \<and> scans st1 = scans st0 + 1)
           \<and> (t2 - at_time c < 30000 \<longrightarrow>
                discoverAppApiEndpoints fsys2 t2 st1 = (Inr eps, st1))
           \<and> (30000 \<le> t2 - at_time c \<longrightarrow>
                scans (snd (discoverAppApiEndpoints fsys2 t2 st1)) = scans st1 + 1
                \<and> (case fst (discoverAppApiEndpoints fsys2 t2 st1) of
                      Inr eps2 \<Rightarrow>
                        cached (snd (discoverAppApiEndpoints fsys2 t2 st1))
                          = Some \<lparr> at_time = t2, endpoints = eps2 \<rparr>
                        \<and> (if apiRootExists fsys2 then scanRoutes fsys2 = Inr eps2 else eps2 = [])
                    | Inl e \<Rightarrow>
                        cached (snd (discoverAppApiEndpoints fsys2 t2 st1)) = cached st1
                        \<and> apiRootExists fsys2 \<and> scanRoutes fsys2 = Inl e))"
proof -
  obtain c where c: "cached st1 = Some c" "endpoints c = eps"
    and m: "cached st0 = None \<or> (\<exists>c0. cached st0 = Some c0 \<and> 30000 \<le> t1 - at_time c0)
              \<longrightarrow> at_time c = t1 \<and> scans st1 = scans st0 + 1"
    using discover_returns_cached [OF assms] by blast
  have fresh: "t2 - at_time c < 30000 \<longrightarrow> discoverAppApiEndpoints fsys2 t2 st1 = (Inr eps, st1)"
    using discover_fresh [OF c(1), of t2 fsys2] c(2) by simp
  have stale: "30000 \<le> t2 - at_time c \<longrightarrow>
                scans (snd (discoverAppApiEndpoints fsys2 t2 st1)) = scans st1 + 1
                \<and> (case fst (discoverAppApiEndpoints fsys2 t2 st1) of
                      Inr eps2 \<Rightarrow>
                        cached (snd (discoverAppApiEndpoints fsys2 t2 st1))
                          = Some \<lparr> at_time = t2, endpoints = eps2 \<rparr>
                        \<and> (if apiRootExists fsys2 then scanRoutes fsys2 = Inr eps2 else eps2 = [])
                    | Inl e \<Rightarrow>
                        cached (snd (discoverAppApiEndpoints fsys2 t2 st1)) = cached st1
                        \<and> apiRootExists fsys2 \<and> scanRoutes fsys2 = Inl e)"
  proof
    assume "30000 \<le> t2 - at_time c"
    then have s: "cached st1 = None \<or> (\<exists>c. cached st1 = Some c \<and> 30000 \<le> t2 - at_time c)"
      using c(1) by simp
    show "scans (snd (discoverAppApiEndpoints fsys2 t2 st1)) = scans st1 + 1
                \<and> (case fst (discoverAppApiEndpoints fsys2 t2 st1) of
                      Inr eps2 \<Rightarrow>
                        cached (snd (discoverAppApiEndpoints fsys2 t2 st1))
                          = Some \<lparr> at_time = t2, endpoints = eps2 \<rparr>
                        \<and> (if apiRootExists fsys2 then scanRoutes fsys2 = Inr eps2 else eps2 = [])
                    | Inl e \<Rightarrow>
                        cached (snd (discoverAppApiEndpoints fsys2 t2 st1)) = cached st1
                        \<and> apiRootExists fsys2 \<and> scanRoutes fsys2 = Inl e)"
      unfolding discover_stale [OF s] by (simp split: sum.splits)
  qed
  from c m fresh stale show ?thesis by blast
qed

theorem discovery_cache_window_witness:
  "discoverAppApiEndpoints oneRoute 1000 freshModule
     = (Inr companiesRoutes,
        \<lparr> cached = Some \<lparr> at_time = 1000, endpoints = companiesRoutes \<rparr>, scans = 1 \<rparr>)
   \<and> discoverAppApiEndpoints noRoutes 30999
        \<lparr> cached = Some \<lparr> at_time = 1000, endpoints = companiesRoutes \<rparr>, scans = 1 \<rparr>
       = (Inr companiesRoutes,
          \<lparr> cached = Some \<lparr> at_time = 1000, endpoints = companiesRoutes \<rparr>, scans = 1 \<rparr>)
   \<and> discoverAppApiEndpoints noRoutes 31000
        \<lparr> cached = Some \<lparr> at_time = 1000, endpoints = companiesRoutes \<rparr>, scans = 1 \<rparr>
       = (Inr [], \<lparr> cached = Some \<lparr> at_time = 31000, endpoints = [] \<rparr>, scans = 2 \<rparr>)"
proof -
  let ?st1 = "\<lparr> cached = Some \<lparr> at_time = 1000, endpoints = companiesRoutes \<rparr>, scans = 1 \<rparr>"
  have first: "discoverAppApiEndpoints oneRoute 1000 freshModule = (Inr companiesRoutes, ?st1)"
    by (simp add: discoverAppApiEndpoints_def oneRoute_def freshModule_def Let_def)
  have third: "discoverAppApiEndpoints noRoutes 31000 ?st1
                 = (Inr [], \<lparr> cached = Some \<lparr> at_time = 31000, endpoints = [] \<rparr>, scans = 2 \<rparr>)"
    by (simp add: discoverAppApiEndpoints_def noRoutes_def Let_def)
  have second: "discoverAppApiEndpoints noRoutes 30999 ?st1 = (Inr companiesRoutes, ?st1)"
    using discovery_cache_window [OF first, of 30999 noRoutes] by simp
  show ?thesis using first second third by simp
qed

end
